theory Spec2Isabelle
  imports Complex_Main "HOL-Library.AList"
begin

section \<open>Python values, exceptions and dictionaries\<close>

text \<open>
  The instrument wrappers are Python classes. Strings are \<open>string\<close>, a method that
  mutates \<open>self\<close> takes the object and returns it updated, and an exception that leaves
  a method is a value of \<open>error\<close>. A method whose mutations are still visible after
  it raised returns the pair of the exception (if any) and the object.
\<close>

text \<open>A component of a tuple used as dictionary key: a \<open>str\<close> or an \<open>int\<close>.\<close>

datatype atom = PyStr string | PyInt int

datatype error =
    KeyError "atom list"
  | IndexError
  | ValueError
  | TypeError
  | VisaIOError
  | IncorrectInstrumentError
  | PSNotResponding
  | PSWrongOutputCurrent real
  | PSWrongOutputField real
  | PSWrongCurrentSweepRate real
  | InstrumentNotAvailableError
  | VoidManagerError
  | ReportInstrumentInternalError string string
  | InvalidTypeDictionaryError
  | InvalidTypeDictionaryKeyError

text \<open>
  A \<open>dict\<close> is an association list in insertion order: \<open>d[k] = v\<close> is
  \<^const>\<open>AList.update\<close> (overwrite in place, or append), \<open>d[k]\<close> is \<^const>\<open>map_of\<close>
  with \<open>KeyError\<close> for a missing key, and iterating over \<open>d\<close> walks the list.
\<close>

type_synonym ('k, 'v) dict = "('k \<times> 'v) list"

definition getitem :: "(atom list, 'v) dict \<Rightarrow> atom list \<Rightarrow> error + 'v" where
  "getitem d k = (case map_of d k of None \<Rightarrow> Inl (KeyError k) | Some v \<Rightarrow> Inr v)"

text \<open>\<open>s[i]\<close> for a non-negative index: a one-character string, or \<open>IndexError\<close>.\<close>

definition char_at :: "string \<Rightarrow> nat \<Rightarrow> error + string" where
  "char_at s i = (if i < length s then Inr [s ! i] else Inl IndexError)"

text \<open>\<open>s[i:j]\<close> and \<open>s[i:]\<close> for non-negative bounds; slicing never raises.\<close>

definition slice :: "string \<Rightarrow> nat \<Rightarrow> nat \<Rightarrow> string" where
  "slice s i j = take (j - i) (drop i s)"

definition slice_from :: "string \<Rightarrow> nat \<Rightarrow> string" where
  "slice_from s i = drop i s"

text \<open>The decimal digits of a natural number, as \<open>str\<close> prints an \<open>int\<close>.\<close>

fun digits_of :: "nat \<Rightarrow> string" where
  "digits_of n =
     (if n < 10 then [''0123456789'' ! n]
      else digits_of (n div 10) @ [''0123456789'' ! (n mod 10)])"

declare digits_of.simps [simp del]

text \<open>
  \<open>'{0:G}'.format(n)\<close> for an integer \<open>0 \<le> n < 10\<^sup>6\<close>: below a million the general
  format prints the integer's digits. The code formats step numbers 1 to 16 with it.
\<close>

definition format_G :: "int \<Rightarrow> string" where
  "format_G n = digits_of (nat n)"

text \<open>\<open>x in s\<close> for two strings: \<open>x\<close> occurs in \<open>s\<close> as a contiguous run.\<close>

fun py_in :: "string \<Rightarrow> string \<Rightarrow> bool" where
  "py_in x [] = (x = [])"
| "py_in x (c # s) = (take (length x) (c # s) = x \<or> py_in x s)"

text \<open>
  Python floats are modelled by the real numbers they stand for: comparison and
  \<open>abs\<close> are those of \<open>real\<close>, and \<open>inf\<close> and \<open>nan\<close> are outside the model.

  \<open>float(s)\<close> for the plain signed decimals the Oxford instruments reply with: an
  optional sign, digits, and an optional point followed by digits. \<open>None\<close> stands for
  the \<open>ValueError\<close> of a string that is not a number. (Exponents, blanks around the
  number and underscores, which Python also reads, are not part of the instruments'
  replies and are read as \<open>None\<close> here.)
\<close>

definition is_digit :: "char \<Rightarrow> bool" where
  "is_digit c = (c \<in> set ''0123456789'')"

definition digit_value :: "char \<Rightarrow> nat" where
  "digit_value c = of_char c - 48"

definition digits_value :: "string \<Rightarrow> nat" where
  "digits_value ds = foldl (\<lambda>acc c. 10 * acc + digit_value c) 0 ds"

definition unsigned_decimal :: "string \<Rightarrow> real option" where
  "unsigned_decimal s =
     (let ip = takeWhile is_digit s; rest = dropWhile is_digit s in
      case rest of
        [] \<Rightarrow> if ip = [] then None else Some (real (digits_value ip))
      | c # fp \<Rightarrow>
          if c = CHR ''.'' \<and> list_all is_digit fp \<and> (ip \<noteq> [] \<or> fp \<noteq> [])
          then Some (real (digits_value ip) + real (digits_value fp) / 10 ^ length fp)
          else None)"

definition py_float :: "string \<Rightarrow> real option" where
  "py_float s =
     (case s of
        [] \<Rightarrow> None
      | c # t \<Rightarrow>
          if c = CHR ''+'' then unsigned_decimal t
          else if c = CHR ''-'' then map_option uminus (unsigned_decimal t)
          else unsigned_decimal s)"

text \<open>
  \<open>'{0:+.pf}'.format(x)\<close> for \<open>p \<ge> 1\<close>: the sign, always written, and \<open>\<bar>x\<bar>\<close> rounded
  to \<open>p\<close> decimals (ties to even), with exactly \<open>p\<close> digits after the point.
\<close>

definition round_half_even :: "real \<Rightarrow> int" where
  "round_half_even x =
     (let f = \<lfloor>x\<rfloor> in
      if x - of_int f < 1 / 2 then f
      else if 1 / 2 < x - of_int f then f + 1
      else if even f then f else f + 1)"

definition zero_pad :: "nat \<Rightarrow> string \<Rightarrow> string" where
  "zero_pad p ds = replicate (p - length ds) CHR ''0'' @ ds"

definition format_plus_f :: "nat \<Rightarrow> real \<Rightarrow> string" where
  "format_plus_f p x =
     (let n = nat (round_half_even (\<bar>x\<bar> * 10 ^ p)) in
      (if x < 0 then ''-'' else ''+'') @
      digits_of (n div 10 ^ p) @ ''.'' @ zero_pad p (digits_of (n mod 10 ^ p)))"

text \<open>
  \<open>try: body except (E1, ..., En) as error: error.error_handler\<close>: the handler names
  the method \<open>error_handler\<close> without calling it, so an exception of a listed class is
  dropped and the method returns; any other exception leaves the method. The object
  keeps the mutations made before the exception.
\<close>

definition except_pass :: "(error \<Rightarrow> bool) \<Rightarrow> error option \<times> 's \<Rightarrow> error option \<times> 's" where
  "except_pass caught r =
     (case fst r of
        None \<Rightarrow> r
      | Some e \<Rightarrow> if caught e then (None, snd r) else r)"

section \<open>Python strings and numbers in the SCPI command builder\<close>

text \<open>
  \<open>str.upper()\<close> and \<open>str.title()\<close> on ASCII strings, which is what the option
  names of the command builder are. \<open>title\<close> writes a letter in upper case when the
  character before it is not a letter, and in lower case otherwise.
\<close>

definition lower_case :: string where
  "lower_case = ''abcdefghijklmnopqrstuvwxyz''"

definition upper_case :: string where
  "upper_case = ''ABCDEFGHIJKLMNOPQRSTUVWXYZ''"

definition is_lower :: "char \<Rightarrow> bool" where
  "is_lower c = (c \<in> set lower_case)"

definition is_upper :: "char \<Rightarrow> bool" where
  "is_upper c = (c \<in> set upper_case)"

definition to_upper :: "char \<Rightarrow> char" where
  "to_upper c = (case map_of (zip lower_case upper_case) c of None \<Rightarrow> c | Some u \<Rightarrow> u)"

definition to_lower :: "char \<Rightarrow> char" where
  "to_lower c = (case map_of (zip upper_case lower_case) c of None \<Rightarrow> c | Some l \<Rightarrow> l)"

definition py_upper :: "string \<Rightarrow> string" where
  "py_upper s = map to_upper s"

fun title_from :: "bool \<Rightarrow> string \<Rightarrow> string" where
  "title_from previous_is_cased [] = []"
| "title_from previous_is_cased (c # s) =
     (if previous_is_cased then to_lower c else to_upper c) #
     title_from (is_lower c \<or> is_upper c) s"

definition py_title :: "string \<Rightarrow> string" where
  "py_title s = title_from False s"

text \<open>\<open>s.split(sep)\<close> for a one-character separator.\<close>

fun py_split :: "char \<Rightarrow> string \<Rightarrow> string list" where
  "py_split sep [] = [[]]"
| "py_split sep (c # s) =
     (if c = sep then [] # py_split sep s
      else (case py_split sep s of [] \<Rightarrow> [[c]] | w # ws \<Rightarrow> (c # w) # ws))"

text \<open>
  A number passed to the command builder: an \<open>int\<close>, or a \<open>float\<close> given by the
  shortest decimal that reads back as it, mantissa and exponent of ten: \<open>1e-2\<close> is
  \<open>PyFloat 1 (-2)\<close>. That decimal is what \<open>str\<close> prints, in positional notation
  when the decimal point falls within the sixteen digits after or the three zeros
  before the first digit, and in exponent notation otherwise.
\<close>

datatype number = PyInteger int | PyFloat int int

definition str_int :: "int \<Rightarrow> string" where
  "str_int n = (if n < 0 then ''-'' else '''') @ digits_of (nat \<bar>n\<bar>)"

definition trailing_zeros :: "string \<Rightarrow> nat" where
  "trailing_zeros ds = length (takeWhile (\<lambda>c. c = CHR ''0'') (rev ds))"

definition str_float :: "int \<Rightarrow> int \<Rightarrow> string" where
  "str_float m e =
     (if m = 0 then ''0.0''
      else
        (let written_digits = digits_of (nat \<bar>m\<bar>);
             ds = take (length written_digits - trailing_zeros written_digits) written_digits;
             n = int (length ds);
             decpt = int (length written_digits) + e;
             sign = (if m < 0 then ''-'' else '''')
         in if - 4 < decpt \<and> decpt \<le> 16 then
              (if decpt \<le> 0 then sign @ ''0.'' @ replicate (nat (- decpt)) CHR ''0'' @ ds
               else if n \<le> decpt then sign @ ds @ replicate (nat (decpt - n)) CHR ''0'' @ ''.0''
               else sign @ take (nat decpt) ds @ ''.'' @ drop (nat decpt) ds)
            else
              sign @ take 1 ds @ (if 1 < n then ''.'' @ drop 1 ds else '''') @ ''e'' @
              (if decpt - 1 < 0 then ''-'' else ''+'') @
              zero_pad 2 (digits_of (nat \<bar>decpt - 1\<bar>))))"

fun py_str :: "number \<Rightarrow> string" where
  "py_str (PyInteger n) = str_int n"
| "py_str (PyFloat m e) = str_float m e"

text \<open>\<open>d[k]\<close> for a dictionary with strings as keys, and \<open>dict(pairs)\<close>.\<close>

definition getitem_str :: "(string, 'v) dict \<Rightarrow> string \<Rightarrow> error + 'v" where
  "getitem_str d k = (case map_of d k of None \<Rightarrow> Inl (KeyError [PyStr k]) | Some v \<Rightarrow> Inr v)"

definition py_dict :: "('k \<times> 'v) list \<Rightarrow> ('k, 'v) dict" where
  "py_dict pairs = fold (\<lambda>(k, v). AList.update k v) pairs []"

text \<open>Sequencing of two steps of which the first may raise.\<close>

definition and_then :: "error + 'a \<Rightarrow> ('a \<Rightarrow> error + 'b) \<Rightarrow> error + 'b" where
  "and_then r f = (case r of Inl e \<Rightarrow> Inl e | Inr x \<Rightarrow> f x)"

section \<open>OxfordITC: the message table and the status decoder\<close>

definition X_messages_ITC :: "(string, string) dict" where
  "X_messages_ITC = [(''0'', ''Temperature controller NORMAL operative mode.\<newline>'')]"

definition A_messages_ITC :: "(string, string) dict" where
  "A_messages_ITC =
     [(''0'', ''Heater in MANUAL mode. Gas flow in MANUAL mode.\<newline>''),
      (''1'', ''Heater in AUTO mode. Gas flow in MANUAL mode.\<newline>''),
      (''2'', ''Heater in MANUAL mode. Gas flow in AUTO mode.\<newline>''),
      (''3'', ''Heater in AUTO mode. Gas flow in AUTO mode.\<newline>'')]"

definition C_messages_ITC :: "(string, string) dict" where
  "C_messages_ITC =
     [(''0'', ''Temperature controller in LOCAL and LOCKED state.\<newline>''),
      (''1'', ''Temperature controller in REMOTE and LOCKED state.\<newline>''),
      (''2'', ''Temperature controller in LOCAL and UNLOCKED state.\<newline>''),
      (''3'', ''Temperature controller in REMOTE and UNLOCKED state.\<newline>'')]"

definition H_messages_ITC :: "(string, string) dict" where
  "H_messages_ITC =
     [(''1'', ''Temperature is controlled by CHANNEL 1 sensor.\<newline>''),
      (''2'', ''Temperature is controlled by CHANNEL 2 sensor.\<newline>''),
      (''3'', ''Temperature is controlled by CHANNEL 3 sensor.\<newline>'')]"

definition L_messages_ITC :: "(string, string) dict" where
  "L_messages_ITC =
     [(''0'', ''Auto (learned) PIDs are DISABLED.''),
      (''1'', ''Auto (learned) PIDs are ENABLED.'')]"

text \<open>
  \<open>for n in T: messages[key, n] = T[n]\<close>: the loop over a fragment table, which
  stores each of its phrases under the pair of the field letter and the table's key.
\<close>

definition copy_messages ::
  "string \<Rightarrow> (string, string) dict \<Rightarrow> (atom list, string) dict \<Rightarrow> (atom list, string) dict" where
  "copy_messages key T messages =
     fold (\<lambda>(n, phrase). AList.update [PyStr key, PyStr n] phrase) T messages"

text \<open>
  The body of \<open>for nn in range(1,32)\<close>: the key of a sweep step is the pair of
  \<open>'S'\<close> and the integer \<open>nn\<close>, while the entry for no sweep is stored under the
  string \<open>'00'\<close>.
\<close>

definition sweep_step_message :: "string \<Rightarrow> int \<Rightarrow> (atom list, string) dict \<Rightarrow> (atom list, string) dict" where
  "sweep_step_message key nn messages =
     (if nn mod 2 = 1
      then AList.update [PyStr key, PyInt nn]
             (''Sweeping to step number '' @ format_G ((nn + 1) div 2) @ '' set temperature.\<newline>'')
             messages
      else AList.update [PyStr key, PyInt nn]
             (''Holding the step number '' @ format_G (nn div 2) @ '' set temperature.\<newline>'')
             messages)"

definition OxfordITC_messages_step ::
  "string \<Rightarrow> (atom list, string) dict \<Rightarrow> (atom list, string) dict" where
  "OxfordITC_messages_step key messages =
     (if key = ''X'' then copy_messages key X_messages_ITC messages
      else if key = ''A'' then copy_messages key A_messages_ITC messages
      else if key = ''C'' then copy_messages key C_messages_ITC messages
      else if key = ''S'' then
        fold (sweep_step_message key) [1..31]
          (AList.update [PyStr key, PyStr ''00''] ''Sweep mode is not active.\<newline>'' messages)
      else if key = ''H'' then copy_messages key H_messages_ITC messages
      else if key = ''L'' then copy_messages key L_messages_ITC messages
      else messages)"

definition OxfordITC_messages_dictionary :: "(atom list, string) dict" where
  "OxfordITC_messages_dictionary =
     fold OxfordITC_messages_step [''X'', ''A'', ''C'', ''S'', ''H'', ''L''] []"

text \<open>
  One iteration of the decoder's loop over the six slices: the key looked up for a
  slice. A slice of two characters gives \<open>(key, n)\<close>; any other slice starting with
  \<open>'S'\<close> gives \<open>(key, nn)\<close> with \<open>nn\<close> the rest of the slice, a string; any other
  slice gives \<open>(key, m, n)\<close>. Indexing an absent character raises \<open>IndexError\<close>.
\<close>

definition OxfordITC_field_key :: "string \<Rightarrow> error + atom list" where
  "OxfordITC_field_key string =
     (if length string = 2 then Inr [PyStr [string ! 0], PyStr [string ! 1]]
      else
        (case char_at string 0 of
           Inl e \<Rightarrow> Inl e
         | Inr key \<Rightarrow>
             if key = ''S'' then Inr [PyStr key, PyStr (slice_from string 1)]
             else
               (case char_at string 1 of
                  Inl e \<Rightarrow> Inl e
                | Inr m \<Rightarrow>
                    (case char_at string 2 of
                       Inl e \<Rightarrow> Inl e
                     | Inr n \<Rightarrow> Inr [PyStr key, PyStr m, PyStr n]))))"

text \<open>
  The loop of a status decoder: \<open>last_decodified_status\<close> grows by one phrase per
  slice, and an exception leaves it as it was when the exception was raised.
\<close>

fun decoder_loop ::
  "(string \<Rightarrow> error + atom list) \<Rightarrow> (atom list, string) dict \<Rightarrow> string list \<Rightarrow> string
     \<Rightarrow> error option \<times> string" where
  "decoder_loop field_key messages [] last_decodified_status = (None, last_decodified_status)"
| "decoder_loop field_key messages (string # rest) last_decodified_status =
     (case field_key string of
        Inl e \<Rightarrow> (Some e, last_decodified_status)
      | Inr k \<Rightarrow>
          (case getitem messages k of
             Inl e \<Rightarrow> (Some e, last_decodified_status)
           | Inr phrase \<Rightarrow> decoder_loop field_key messages rest (last_decodified_status @ phrase)))"

definition OxfordITC_status_split :: "string \<Rightarrow> string list" where
  "OxfordITC_status_split status =
     [slice status 0 2, slice status 2 4, slice status 4 6, slice status 6 9,
      slice status 9 11, slice_from status 11]"

text \<open>
  \<open>OxfordITC._status_decoder_\<close>: the exception that left the method, if any, and the
  value of \<open>last_decodified_status\<close> afterwards.
\<close>

definition OxfordITC_status_decoder :: "string \<Rightarrow> error option \<times> string" where
  "OxfordITC_status_decoder status =
     decoder_loop OxfordITC_field_key OxfordITC_messages_dictionary
       (OxfordITC_status_split status) ''''"

section \<open>The VISA resource and the objects\<close>

text \<open>
  The VISA resource behind \<open>self.instrument\<close>: \<open>written\<close> are the commands sent so
  far, in order, and \<open>pending\<close> are the replies the instrument will give to the next
  queries. A query writes the command and reads one reply; with no reply to read the
  driver raises \<open>VisaIOError\<close> after the command has been written.
\<close>

record resource =
  written :: "string list"
  pending :: "string list"

definition resource_write :: "string \<Rightarrow> resource \<Rightarrow> resource" where
  "resource_write cmd r = r\<lparr>written := written r @ [cmd]\<rparr>"

definition resource_query :: "string \<Rightarrow> resource \<Rightarrow> (error + string) \<times> resource" where
  "resource_query cmd r =
     (case pending r of
        [] \<Rightarrow> (Inl VisaIOError, r\<lparr>written := written r @ [cmd]\<rparr>)
      | reply # rest \<Rightarrow> (Inr reply, r\<lparr>written := written r @ [cmd], pending := rest\<rparr>))"

text \<open>
  The objects follow the class hierarchy. At the root is what every object shares with
  the process it lives in: the console that \<open>error_handler()\<close> prints to. Every
  wrapper of an instrument holds the VISA resource and the identity string; \<open>Cryostat\<close> adds the ISOBUS prefix and the two status strings;
  \<open>OxfordIPS\<close> adds the resolution flag and the readings the modelled methods read or
  write. A reading is \<open>None\<close> until its \<open>get_..._reading\<close> method has stored a number.
\<close>

record process =
  console :: "error list"

record visa_device = process +
  instrument :: resource
  identity :: string

record Cryostat = visa_device +
  buffer_radix :: string
  last_queried_status :: string
  last_decodified_status :: string

text \<open>
  Modelled from the spec: the module \<open>Errors\<close> is not among the sources. The spec
  describes the handling of errors as ``print an error and re-raise'', where the
  re-raise is the \<open>raise\<close> statement that follows the call in the code; so
  \<open>error.error_handler()\<close> prints the error and returns. The classes of that module
  are taken to be exception classes of their own, so that a handler for one of them
  does not catch Python's \<open>KeyError\<close>, \<open>IndexError\<close>, \<open>ValueError\<close> or
  \<open>TypeError\<close>, nor the driver's \<open>VisaIOError\<close>.
\<close>

definition error_handler :: "error \<Rightarrow> 'a process_scheme \<Rightarrow> 'a process_scheme" where
  "error_handler e s = s\<lparr>console := console s @ [e]\<rparr>"

record OxfordIPS = Cryostat +
  extended_resolution :: bool
  current_set_point :: "real option"
  field_set_point :: "real option"
  current_sweep_rate :: "real option"
  safe_current_negative_limit :: "real option"
  safe_current_positive_limit :: "real option"

section \<open>OxfordIPS: readings and set-then-verify commands\<close>

text \<open>\<open>self.instrument.query(cmd)\<close> and \<open>self.instrument.write(cmd)\<close> on an object.\<close>

definition instrument_query ::
  "string \<Rightarrow> 'a visa_device_scheme \<Rightarrow> (error + string) \<times> 'a visa_device_scheme" where
  "instrument_query cmd s =
     (case resource_query cmd (instrument s) of (r, i) \<Rightarrow> (r, s\<lparr>instrument := i\<rparr>))"

definition instrument_write :: "string \<Rightarrow> 'a visa_device_scheme \<Rightarrow> 'a visa_device_scheme" where
  "instrument_write cmd s = s\<lparr>instrument := resource_write cmd (instrument s)\<rparr>"

text \<open>
  Every \<open>get_..._reading\<close> method catches \<open>PSNotResponding\<close> and
  \<open>IncorrectInstrumentError\<close>. Each method is given as its \<open>try\<close> block, which
  returns the exception raised in it, and the method itself, which applies the handler.
\<close>

fun caught_reading :: "error \<Rightarrow> bool" where
  "caught_reading PSNotResponding = True"
| "caught_reading IncorrectInstrumentError = True"
| "caught_reading _ = False"

definition OxfordIPS_get_current_set_point_reading_try :: "OxfordIPS \<Rightarrow> error option \<times> OxfordIPS" where
  "OxfordIPS_get_current_set_point_reading_try s =
     (if py_in ''IPS'' (identity s) then
        (case instrument_query (buffer_radix s @ ''R5'') s of
           (Inl e, s1) \<Rightarrow> (Some e, s1)
         | (Inr reply, s1) \<Rightarrow>
             (let string = slice_from reply 1 in
              if py_in ''?'' string then (Some PSNotResponding, s1)
              else
                (case py_float string of
                   None \<Rightarrow> (Some ValueError, s1)
                 | Some v \<Rightarrow> (None, s1\<lparr>current_set_point := Some v\<rparr>))))
      else (Some IncorrectInstrumentError, s))"

definition OxfordIPS_get_current_set_point_reading :: "OxfordIPS \<Rightarrow> error option \<times> OxfordIPS" where
  "OxfordIPS_get_current_set_point_reading s =
     except_pass caught_reading (OxfordIPS_get_current_set_point_reading_try s)"

definition OxfordIPS_get_current_sweep_rate_reading_try :: "OxfordIPS \<Rightarrow> error option \<times> OxfordIPS" where
  "OxfordIPS_get_current_sweep_rate_reading_try s =
     (if py_in ''IPS'' (identity s) then
        (case instrument_query (buffer_radix s @ ''R6'') s of
           (Inl e, s1) \<Rightarrow> (Some e, s1)
         | (Inr reply, s1) \<Rightarrow>
             (let string = slice_from reply 1 in
              if py_in ''?'' string then (Some PSNotResponding, s1)
              else
                (case py_float string of
                   None \<Rightarrow> (Some ValueError, s1)
                 | Some v \<Rightarrow> (None, s1\<lparr>current_sweep_rate := Some v\<rparr>))))
      else (Some IncorrectInstrumentError, s))"

definition OxfordIPS_get_current_sweep_rate_reading :: "OxfordIPS \<Rightarrow> error option \<times> OxfordIPS" where
  "OxfordIPS_get_current_sweep_rate_reading s =
     except_pass caught_reading (OxfordIPS_get_current_sweep_rate_reading_try s)"

definition OxfordIPS_get_field_set_point_reading_try :: "OxfordIPS \<Rightarrow> error option \<times> OxfordIPS" where
  "OxfordIPS_get_field_set_point_reading_try s =
     (if py_in ''IPS'' (identity s) then
        (case instrument_query (buffer_radix s @ ''R8'') s of
           (Inl e, s1) \<Rightarrow> (Some e, s1)
         | (Inr reply, s1) \<Rightarrow>
             (let string = slice_from reply 1 in
              if py_in ''?'' string then (Some PSNotResponding, s1)
              else
                (case py_float string of
                   None \<Rightarrow> (Some ValueError, s1)
                 | Some v \<Rightarrow> (None, s1\<lparr>field_set_point := Some v\<rparr>))))
      else (Some IncorrectInstrumentError, s))"

definition OxfordIPS_get_field_set_point_reading :: "OxfordIPS \<Rightarrow> error option \<times> OxfordIPS" where
  "OxfordIPS_get_field_set_point_reading s =
     except_pass caught_reading (OxfordIPS_get_field_set_point_reading_try s)"

definition OxfordIPS_get_safe_current_negative_limit_reading_try :: "OxfordIPS \<Rightarrow> error option \<times> OxfordIPS" where
  "OxfordIPS_get_safe_current_negative_limit_reading_try s =
     (if py_in ''IPS'' (identity s) then
        (case instrument_query (buffer_radix s @ ''R21'') s of
           (Inl e, s1) \<Rightarrow> (Some e, s1)
         | (Inr reply, s1) \<Rightarrow>
             (let string = slice_from reply 1 in
              if py_in ''?'' string then (Some PSNotResponding, s1)
              else
                (case py_float string of
                   None \<Rightarrow> (Some ValueError, s1)
                 | Some v \<Rightarrow> (None, s1\<lparr>safe_current_negative_limit := Some v\<rparr>))))
      else (Some IncorrectInstrumentError, s))"

definition OxfordIPS_get_safe_current_negative_limit_reading :: "OxfordIPS \<Rightarrow> error option \<times> OxfordIPS" where
  "OxfordIPS_get_safe_current_negative_limit_reading s =
     except_pass caught_reading (OxfordIPS_get_safe_current_negative_limit_reading_try s)"

definition OxfordIPS_get_safe_current_positive_limit_reading_try :: "OxfordIPS \<Rightarrow> error option \<times> OxfordIPS" where
  "OxfordIPS_get_safe_current_positive_limit_reading_try s =
     (if py_in ''IPS'' (identity s) then
        (case instrument_query (buffer_radix s @ ''R21'') s of
           (Inl e, s1) \<Rightarrow> (Some e, s1)
         | (Inr reply, s1) \<Rightarrow>
             (let string = slice_from reply 1 in
              if py_in ''?'' string then (Some PSNotResponding, s1)
              else
                (case py_float string of
                   None \<Rightarrow> (Some ValueError, s1)
                 | Some v \<Rightarrow> (None, s1\<lparr>safe_current_positive_limit := Some v\<rparr>))))
      else (Some IncorrectInstrumentError, s))"

definition OxfordIPS_get_safe_current_positive_limit_reading :: "OxfordIPS \<Rightarrow> error option \<times> OxfordIPS" where
  "OxfordIPS_get_safe_current_positive_limit_reading s =
     except_pass caught_reading (OxfordIPS_get_safe_current_positive_limit_reading_try s)"

text \<open>
  The set-then-verify methods. \<open>set_target_current\<close> catches all three exceptions
  its \<open>try\<close> block raises; \<open>set_target_field\<close> catches only
  \<open>IncorrectInstrumentError\<close>; \<open>set_current_sweep_rate\<close> names the exception
  classes \<open>PSNotResponding\<close> and \<open>PSWrongCurrentSweepRate(rate)\<close> without
  \<open>raise\<close>, so these two branches fall through to the end of the method.
\<close>

fun caught_set_target_current :: "error \<Rightarrow> bool" where
  "caught_set_target_current PSNotResponding = True"
| "caught_set_target_current (PSWrongOutputCurrent c) = True"
| "caught_set_target_current IncorrectInstrumentError = True"
| "caught_set_target_current _ = False"

definition OxfordIPS_set_target_current_try :: "real \<Rightarrow> OxfordIPS \<Rightarrow> error option \<times> OxfordIPS" where
  "OxfordIPS_set_target_current_try current s =
     (if py_in ''IPS'' (identity s) then
        if \<bar>current\<bar> \<le> 98.46 then
          (case (if extended_resolution s
                 then instrument_query (buffer_radix s @ ''I'' @ format_plus_f 4 current) s
                 else instrument_query (buffer_radix s @ ''I'' @ format_plus_f 3 current) s) of
             (Inl e, s1) \<Rightarrow> (Some e, s1)
           | (Inr reply, s1) \<Rightarrow>
               (case OxfordIPS_get_current_set_point_reading s1 of
                  (Some e, s2) \<Rightarrow> (Some e, s2)
                | (None, s2) \<Rightarrow>
                    if \<not> (current_set_point s2 = Some current) then (Some PSNotResponding, s2)
                    else (None, s2)))
        else (Some (PSWrongOutputCurrent current), s)
      else (Some IncorrectInstrumentError, s))"

definition OxfordIPS_set_target_current :: "real \<Rightarrow> OxfordIPS \<Rightarrow> error option \<times> OxfordIPS" where
  "OxfordIPS_set_target_current current s =
     except_pass caught_set_target_current (OxfordIPS_set_target_current_try current s)"

fun caught_set_target_field :: "error \<Rightarrow> bool" where
  "caught_set_target_field IncorrectInstrumentError = True"
| "caught_set_target_field _ = False"

definition OxfordIPS_set_target_field_try :: "real \<Rightarrow> OxfordIPS \<Rightarrow> error option \<times> OxfordIPS" where
  "OxfordIPS_set_target_field_try field s =
     (if py_in ''IPS'' (identity s) then
        if \<bar>field\<bar> \<le> 7 then
          (case (if extended_resolution s
                 then instrument_query (buffer_radix s @ ''J'' @ format_plus_f 5 field) s
                 else instrument_query (buffer_radix s @ ''J'' @ format_plus_f 4 field) s) of
             (Inl e, s1) \<Rightarrow> (Some e, s1)
           | (Inr reply, s1) \<Rightarrow>
               (case OxfordIPS_get_field_set_point_reading s1 of
                  (Some e, s2) \<Rightarrow> (Some e, s2)
                | (None, s2) \<Rightarrow>
                    if \<not> (field_set_point s2 = Some field) then (Some PSNotResponding, s2)
                    else (None, s2)))
        else (Some (PSWrongOutputField field), s)
      else (Some IncorrectInstrumentError, s))"

definition OxfordIPS_set_target_field :: "real \<Rightarrow> OxfordIPS \<Rightarrow> error option \<times> OxfordIPS" where
  "OxfordIPS_set_target_field field s =
     except_pass caught_set_target_field (OxfordIPS_set_target_field_try field s)"

fun caught_set_current_sweep_rate :: "error \<Rightarrow> bool" where
  "caught_set_current_sweep_rate PSNotResponding = True"
| "caught_set_current_sweep_rate (PSWrongCurrentSweepRate r) = True"
| "caught_set_current_sweep_rate IncorrectInstrumentError = True"
| "caught_set_current_sweep_rate _ = False"

definition OxfordIPS_set_current_sweep_rate_try :: "real \<Rightarrow> OxfordIPS \<Rightarrow> error option \<times> OxfordIPS" where
  "OxfordIPS_set_current_sweep_rate_try rate s =
     (if py_in ''IPS'' (identity s) then
        if \<bar>rate\<bar> \<le> 16.88 then
          (case (if extended_resolution s
                 then instrument_query (buffer_radix s @ ''S'' @ format_plus_f 4 rate) s
                 else instrument_query (buffer_radix s @ ''S'' @ format_plus_f 3 rate) s) of
             (Inl e, s1) \<Rightarrow> (Some e, s1)
           | (Inr reply, s1) \<Rightarrow>
               (case OxfordIPS_get_current_sweep_rate_reading s1 of
                  (Some e, s2) \<Rightarrow> (Some e, s2)
                | (None, s2) \<Rightarrow>
                    if \<not> (current_sweep_rate s2 = Some rate) then (None, s2)
                    else (None, s2)))
        else (None, s)
      else (Some IncorrectInstrumentError, s))"

definition OxfordIPS_set_current_sweep_rate :: "real \<Rightarrow> OxfordIPS \<Rightarrow> error option \<times> OxfordIPS" where
  "OxfordIPS_set_current_sweep_rate rate s =
     except_pass caught_set_current_sweep_rate (OxfordIPS_set_current_sweep_rate_try rate s)"

text \<open>
  An IPS as the test script sets it up (an ISOBUS master, extended resolution), with
  no reading taken yet and the given replies waiting in the instrument.
\<close>

definition example_IPS :: "string list \<Rightarrow> OxfordIPS" where
  "example_IPS replies =
     \<lparr>console = [],
      instrument = \<lparr>written = [], pending = replies\<rparr>,
      identity = ''IPS120-10  Version 3.07  (c) OXFORD 1996'',
      buffer_radix = ''@0'',
      last_queried_status = '''',
      last_decodified_status = '''',
      extended_resolution = True,
      current_set_point = None,
      field_set_point = None,
      current_sweep_rate = None,
      safe_current_negative_limit = None,
      safe_current_positive_limit = None\<rparr>"

section \<open>OxfordIPS: the message table, the status decoder and the status query\<close>


















section \<open>Manager: the resource directory\<close>

text \<open>
  The VISA resource manager behind \<open>self.manager\<close>: \<open>bus\<close> are the addresses it
  would list now, \<open>list_resources_calls\<close> counts the enumerations asked of it.
  Opening an address that is not on the bus fails in the driver.
\<close>

record ResourceManager =
  bus :: "string list"
  list_resources_calls :: nat

datatype handle = Handle string

definition list_resources :: "ResourceManager \<Rightarrow> string list \<times> ResourceManager" where
  "list_resources rm = (bus rm, rm\<lparr>list_resources_calls := Suc (list_resources_calls rm)\<rparr>)"

definition open_resource :: "string \<Rightarrow> ResourceManager \<Rightarrow> error + handle" where
  "open_resource adress rm = (if adress \<in> set (bus rm) then Inr (Handle adress) else Inl VisaIOError)"

text \<open>
  A \<open>Manager\<close> object: the VISA manager and the tuple of resources last listed.
\<close>

record Manager = process +
  manager :: ResourceManager
  resources :: "string list"

definition Manager_is_resource :: "string \<Rightarrow> Manager \<Rightarrow> bool" where
  "Manager_is_resource adress m = (adress \<in> set (resources m))"

text \<open>
  \<open>Manager._refresh_resources_\<close>: the \<open>try\<close> block, then the method, whose handler
  prints and re-raises.
\<close>

definition Manager_refresh_resources_try :: "Manager \<Rightarrow> error option \<times> Manager" where
  "Manager_refresh_resources_try m =
     (let initial_resources = resources m in
      case list_resources (manager m) of
        (listed, rm) \<Rightarrow>
          (let m1 = m\<lparr>manager := rm, resources := listed\<rparr> in
           if resources m1 = initial_resources then
             if resources m1 = [] then (Some VoidManagerError, m1)
             else (Some InstrumentNotAvailableError, m1)
           else (None, m1)))"

definition Manager_refresh_resources :: "Manager \<Rightarrow> error option \<times> Manager" where
  "Manager_refresh_resources m =
     (case Manager_refresh_resources_try m of
        (Some e, m1) \<Rightarrow>
          if e = VoidManagerError \<or> e = InstrumentNotAvailableError
          then (Some e, error_handler e m1)
          else (Some e, m1)
      | (None, m1) \<Rightarrow> (None, m1))"

text \<open>
  \<open>Manager.open_instrument\<close>: the handler prints an \<open>InstrumentNotAvailableError\<close>
  and does not re-raise it, so the method then returns \<open>None\<close>. The result is the
  exception that left the method, or the value returned: \<open>Some\<close> handle or \<open>None\<close>.
\<close>

definition Manager_open_instrument_try :: "string \<Rightarrow> Manager \<Rightarrow> (error + handle) \<times> Manager" where
  "Manager_open_instrument_try adress m =
     (if Manager_is_resource adress m then (open_resource adress (manager m), m)
      else
        (case Manager_refresh_resources m of
           (Some e, m1) \<Rightarrow> (Inl e, m1)
         | (None, m1) \<Rightarrow>
             if Manager_is_resource adress m1 then (open_resource adress (manager m1), m1)
             else (Inl InstrumentNotAvailableError, m1)))"

definition Manager_open_instrument ::
  "string \<Rightarrow> Manager \<Rightarrow> (error + handle option) \<times> Manager" where
  "Manager_open_instrument adress m =
     (case Manager_open_instrument_try adress m of
        (Inl e, m1) \<Rightarrow>
          if e = InstrumentNotAvailableError then (Inr None, error_handler e m1)
          else (Inl e, m1)
      | (Inr h, m1) \<Rightarrow> (Inr (Some h), m1))"

section \<open>Instruments and Keithley2400: the SCPI command builder\<close>

text \<open>
  \<open>Instruments.type_dictionary\<close>: for every key the pairs of the key as given, in
  title case and in upper case with its buffer. On tuples of different lengths the
  method raises \<open>InvalidTypeDictionaryError\<close>, which its handler prints and re-raises;
  the printing is not part of the value modelled here, and every call in the modelled
  methods passes tuples of equal length.
\<close>

definition Instruments_type_dictionary ::
  "string list \<Rightarrow> string list \<Rightarrow> error + (string \<times> string) list" where
  "Instruments_type_dictionary keys buffers =
     (if length keys = length buffers then
        Inr (fold (\<lambda>i lista.
                     lista @ [(keys ! i, buffers ! i), (py_title (keys ! i), buffers ! i),
                              (py_upper (keys ! i), buffers ! i)])
               [0..<length keys] [])
      else Inl InvalidTypeDictionaryError)"

text \<open>
  The attributes the modelled methods of \<open>Instruments\<close> and \<open>Keithley2400\<close> read
  or write.
\<close>

record Instruments = visa_device +
  last_internal_error :: "string list option"

record Keithley2400 = Instruments +
  sweep_steps :: "number option"

definition Instruments_operation_complete_query ::
  "'a visa_device_scheme \<Rightarrow> error option \<times> 'a visa_device_scheme" where
  "Instruments_operation_complete_query s =
     (case instrument_query ''*OPC?'' s of
        (Inl e, s1) \<Rightarrow> (Some e, s1)
      | (Inr reply, s1) \<Rightarrow> (None, s1))"

text \<open>
  \<open>try: body except (E1, ..., En) as error: error.error_handler(); raise\<close> and the
  same handler without \<open>raise\<close>: an exception of a listed class is printed, and then
  leaves the method or is dropped.
\<close>

definition except_print_raise ::
  "(error \<Rightarrow> bool) \<Rightarrow> error option \<times> 'a process_scheme \<Rightarrow> error option \<times> 'a process_scheme" where
  "except_print_raise caught r =
     (case fst r of
        None \<Rightarrow> r
      | Some e \<Rightarrow> if caught e then (Some e, error_handler e (snd r)) else r)"

definition except_print ::
  "(error \<Rightarrow> bool) \<Rightarrow> error option \<times> 'a process_scheme \<Rightarrow> error option \<times> 'a process_scheme" where
  "except_print caught r =
     (case fst r of
        None \<Rightarrow> r
      | Some e \<Rightarrow> if caught e then (None, error_handler e (snd r)) else r)"

fun caught_error_query :: "error \<Rightarrow> bool" where
  "caught_error_query (ReportInstrumentInternalError code message) = True"
| "caught_error_query IncorrectInstrumentError = True"
| "caught_error_query _ = False"

text \<open>
  \<open>Keithley2400._error_query_\<close>: the reply is split at the commas; a first part other
  than \<open>'0'\<close> is reported with the second part, cut by one character in front and two
  at the end. A reply without a comma has no second part to index.
\<close>

definition Keithley2400_error_query_try :: "Keithley2400 \<Rightarrow> error option \<times> Keithley2400" where
  "Keithley2400_error_query_try s =
     (if py_in ''KEITHLEY'' (identity s) \<and> py_in ''2400'' (identity s) then
        (case instrument_query '':SYST:ERR?'' s of
           (Inl e, s1) \<Rightarrow> (Some e, s1)
         | (Inr error_query, s1) \<Rightarrow>
             (let parts = py_split CHR '','' error_query;
                  s2 = s1\<lparr>last_internal_error := Some parts\<rparr>
              in case parts of
                   [] \<Rightarrow> (Some IndexError, s2)
                 | code # others \<Rightarrow>
                     if code \<noteq> ''0'' then
                       (case others of
                          [] \<Rightarrow> (Some IndexError, s2)
                        | message # rest \<Rightarrow>
                            (Some (ReportInstrumentInternalError code
                                     (slice message 1 (length message - 2))), s2))
                     else (None, s2)))
      else (Some IncorrectInstrumentError, s))"

definition Keithley2400_error_query :: "Keithley2400 \<Rightarrow> error option \<times> Keithley2400" where
  "Keithley2400_error_query s =
     except_print_raise caught_error_query (Keithley2400_error_query_try s)"

text \<open>
  \<open>Keithley2400._source_general_configuration_\<close>. The only handler is for
  \<open>InvalidTypeDictionaryKeyError\<close>, after which the method returns \<open>None\<close>; the
  \<open>KeyError\<close> of the dictionary lookup leaves the method. The result is the
  exception, or the value returned: \<open>Some\<close> buffer or \<open>None\<close>.
\<close>

definition Keithley2400_source_general_configuration_try ::
  "bool \<Rightarrow> string \<Rightarrow> bool \<Rightarrow> number \<Rightarrow> error + string" where
  "Keithley2400_source_general_configuration_try auto_clear autoclear_mode auto_settle settling_delay =
     and_then
       (if auto_clear then
          and_then (Instruments_type_dictionary [''always'', ''on trigger''] [''ALW'', ''TCO''])
            (\<lambda>lista. and_then (getitem_str (py_dict lista) autoclear_mode)
               (\<lambda>mode. Inr ('':SOUR:CLE:AUTO ON;:SOUR:CLE:AUTO:mode '' @ mode @ '';'')))
        else Inr '':SOUR:CLE:AUTO OFF;'')
       (\<lambda>buffer.
          if auto_settle then Inr (buffer @ '':SOUR:DEL:AUTO ON;'')
          else Inr (buffer @ '':SOUR:DEL:AUTO OFF;:SOUR:DEL '' @ py_str settling_delay @ '';''))"

definition return_none_on_key_error_class :: "error + string \<Rightarrow> error + string option" where
  "return_none_on_key_error_class r =
     (case r of
        Inl e \<Rightarrow> if e = InvalidTypeDictionaryKeyError then Inr None else Inl e
      | Inr buffer \<Rightarrow> Inr (Some buffer))"

definition Keithley2400_source_general_configuration ::
  "bool \<Rightarrow> string \<Rightarrow> bool \<Rightarrow> number \<Rightarrow> error + string option" where
  "Keithley2400_source_general_configuration auto_clear autoclear_mode auto_settle settling_delay =
     return_none_on_key_error_class
       (Keithley2400_source_general_configuration_try auto_clear autoclear_mode auto_settle
          settling_delay)"



text \<open>
  The end shared by the configuration methods: the buffer is written, then the
  completion barrier and the error query follow.
\<close>

definition write_and_check :: "string \<Rightarrow> Keithley2400 \<Rightarrow> error option \<times> Keithley2400" where
  "write_and_check buffer s =
     (case Instruments_operation_complete_query (instrument_write buffer s) of
        (Some e, s1) \<Rightarrow> (Some e, s1)
      | (None, s1) \<Rightarrow> Keithley2400_error_query s1)"

fun caught_configuration :: "error \<Rightarrow> bool" where
  "caught_configuration (ReportInstrumentInternalError code message) = True"
| "caught_configuration IncorrectInstrumentError = True"
| "caught_configuration InvalidTypeDictionaryKeyError = True"
| "caught_configuration _ = False"

text \<open>
  \<open>Keithley2400.current_source_fixed_configuration\<close>: the buffer it builds, then the
  \<open>try\<close> block, then the method. Adding a string to the \<open>None\<close> that
  \<open>_source_general_configuration_\<close> may return is a \<open>TypeError\<close>. A level mode that
  is neither spelling of \<open>immediate\<close> nor of \<open>triggered\<close> adds nothing to the buffer.
\<close>

definition Keithley2400_current_source_fixed_buffer ::
  "bool \<Rightarrow> string \<Rightarrow> bool \<Rightarrow> number \<Rightarrow> bool \<Rightarrow> number \<Rightarrow> number \<Rightarrow> string \<Rightarrow> bool \<Rightarrow>
   number \<Rightarrow> number \<Rightarrow> error + string" where
  "Keithley2400_current_source_fixed_buffer auto_clear autoclear_mode auto_settle settling_delay
     auto_range manual_range source_level set_level_mode triggered_scaling scaling_factor
     compliance_value =
     and_then
       (Keithley2400_source_general_configuration auto_clear autoclear_mode auto_settle
          settling_delay)
       (\<lambda>general.
          case general of
            None \<Rightarrow> Inl TypeError
          | Some buffer0 \<Rightarrow>
              (let buffer1 = buffer0 @ '':SOUR:FUNC CURR;:SOUR:CURR:MODE FIX;'';
                   buffer2 =
                     (if auto_range then buffer1 @ '':SOUR:CURR:RANG:AUTO ON;''
                      else buffer1 @ '':SOUR:CURR:RANG:AUTO OFF;:SOUR:CURR:RANG '' @
                           py_str manual_range);
                   buffer3 =
                     (if set_level_mode = ''immediate'' \<or> set_level_mode = py_title ''immediate''
                         \<or> set_level_mode = py_upper ''immediate''
                      then buffer2 @ '':SOUR:CURR '' @ py_str source_level @ '';''
                      else if set_level_mode = ''triggered''
                         \<or> set_level_mode = py_title ''triggered''
                         \<or> set_level_mode = py_upper ''triggered''
                      then
                        (if triggered_scaling
                         then buffer2 @ '':SOUR:CURR:TRIG '' @ py_str source_level @ '';'' @
                              '':SOUR:CURR:TRIG:SFAC ON;:SOUR:CURR:TRIG:SFAC '' @
                              py_str scaling_factor
                         else buffer2 @ '':SOUR:CURR:TRIG '' @ py_str source_level @ '';'' @
                              '':SOUR:CURR:TRIG:SFAC OFF;'')
                      else buffer2)
               in Inr (buffer3 @ '':SENS:VOLT:PROT '' @ py_str compliance_value @ '';'')))"

definition Keithley2400_current_source_fixed_configuration_try ::
  "bool \<Rightarrow> string \<Rightarrow> bool \<Rightarrow> number \<Rightarrow> bool \<Rightarrow> number \<Rightarrow> number \<Rightarrow> string \<Rightarrow> bool \<Rightarrow>
   number \<Rightarrow> number \<Rightarrow> Keithley2400 \<Rightarrow> error option \<times> Keithley2400" where
  "Keithley2400_current_source_fixed_configuration_try auto_clear autoclear_mode auto_settle
     settling_delay auto_range manual_range source_level set_level_mode triggered_scaling
     scaling_factor compliance_value s =
     (if py_in ''KEITHLEY'' (identity s) \<and> py_in ''2400'' (identity s) then
        (case Keithley2400_current_source_fixed_buffer auto_clear autoclear_mode auto_settle
                settling_delay auto_range manual_range source_level set_level_mode
                triggered_scaling scaling_factor compliance_value of
           Inl e \<Rightarrow> (Some e, s)
         | Inr buffer \<Rightarrow> write_and_check buffer s)
      else (Some IncorrectInstrumentError, s))"

definition Keithley2400_current_source_fixed_configuration ::
  "bool \<Rightarrow> string \<Rightarrow> bool \<Rightarrow> number \<Rightarrow> bool \<Rightarrow> number \<Rightarrow> number \<Rightarrow> string \<Rightarrow> bool \<Rightarrow>
   number \<Rightarrow> number \<Rightarrow> Keithley2400 \<Rightarrow> error option \<times> Keithley2400" where
  "Keithley2400_current_source_fixed_configuration auto_clear autoclear_mode auto_settle
     settling_delay auto_range manual_range source_level set_level_mode triggered_scaling
     scaling_factor compliance_value s =
     except_print caught_configuration
       (Keithley2400_current_source_fixed_configuration_try auto_clear autoclear_mode
          auto_settle settling_delay auto_range manual_range source_level set_level_mode
          triggered_scaling scaling_factor compliance_value s)"



text \<open>
  A Keithley 2400 after its initialisation, with the given replies waiting in the
  instrument.
\<close>

definition example_Keithley :: "string list \<Rightarrow> Keithley2400" where
  "example_Keithley replies =
     \<lparr>console = [],
      instrument = \<lparr>written = [], pending = replies\<rparr>,
      identity = ''KEITHLEY INSTRUMENTS INC.,MODEL 2400,1234567,C30 Mar 17 2006'',
      last_internal_error = None,
      sweep_steps = None\<rparr>"

text \<open>
  \<open>occurs_in_order fragments buffer\<close>: the fragments occur in the buffer one after the
  other, each starting after the end of the one before.
\<close>

fun find_after :: "string \<Rightarrow> string \<Rightarrow> string option" where
  "find_after fragment [] = (if fragment = [] then Some [] else None)"
| "find_after fragment (c # s) =
     (if take (length fragment) (c # s) = fragment then Some (drop (length fragment) (c # s))
      else find_after fragment s)"

fun occurs_in_order :: "string list \<Rightarrow> string \<Rightarrow> bool" where
  "occurs_in_order [] buffer = True"
| "occurs_in_order (fragment # fragments) buffer =
     (case find_after fragment buffer of
        None \<Rightarrow> False
      | Some rest \<Rightarrow> occurs_in_order fragments rest)"

section \<open>Properties\<close>

lemma OxfordITC_messages_dictionary_eq:
  "OxfordITC_messages_dictionary =
   [([PyStr ''X'', PyStr ''0''], ''Temperature controller NORMAL operative mode.\<newline>''),
    ([PyStr ''A'', PyStr ''0''], ''Heater in MANUAL mode. Gas flow in MANUAL mode.\<newline>''),
    ([PyStr ''A'', PyStr ''1''], ''Heater in AUTO mode. Gas flow in MANUAL mode.\<newline>''),
    ([PyStr ''A'', PyStr ''2''], ''Heater in MANUAL mode. Gas flow in AUTO mode.\<newline>''),
    ([PyStr ''A'', PyStr ''3''], ''Heater in AUTO mode. Gas flow in AUTO mode.\<newline>''),
    ([PyStr ''C'', PyStr ''0''], ''Temperature controller in LOCAL and LOCKED state.\<newline>''),
    ([PyStr ''C'', PyStr ''1''], ''Temperature controller in REMOTE and LOCKED state.\<newline>''),
    ([PyStr ''C'', PyStr ''2''], ''Temperature controller in LOCAL and UNLOCKED state.\<newline>''),
    ([PyStr ''C'', PyStr ''3''], ''Temperature controller in REMOTE and UNLOCKED state.\<newline>''),
    ([PyStr ''S'', PyStr ''00''], ''Sweep mode is not active.\<newline>''),
    ([PyStr ''S'', PyInt 1], ''Sweeping to step number 1 set temperature.\<newline>''),
    ([PyStr ''S'', PyInt 2], ''Holding the step number 1 set temperature.\<newline>''),
    ([PyStr ''S'', PyInt 3], ''Sweeping to step number 2 set temperature.\<newline>''),
    ([PyStr ''S'', PyInt 4], ''Holding the step number 2 set temperature.\<newline>''),
    ([PyStr ''S'', PyInt 5], ''Sweeping to step number 3 set temperature.\<newline>''),
    ([PyStr ''S'', PyInt 6], ''Holding the step number 3 set temperature.\<newline>''),
    ([PyStr ''S'', PyInt 7], ''Sweeping to step number 4 set temperature.\<newline>''),
    ([PyStr ''S'', PyInt 8], ''Holding the step number 4 set temperature.\<newline>''),
    ([PyStr ''S'', PyInt 9], ''Sweeping to step number 5 set temperature.\<newline>''),
    ([PyStr ''S'', PyInt 10], ''Holding the step number 5 set temperature.\<newline>''),
    ([PyStr ''S'', PyInt 11], ''Sweeping to step number 6 set temperature.\<newline>''),
    ([PyStr ''S'', PyInt 12], ''Holding the step number 6 set temperature.\<newline>''),
    ([PyStr ''S'', PyInt 13], ''Sweeping to step number 7 set temperature.\<newline>''),
    ([PyStr ''S'', PyInt 14], ''Holding the step number 7 set temperature.\<newline>''),
    ([PyStr ''S'', PyInt 15], ''Sweeping to step number 8 set temperature.\<newline>''),
    ([PyStr ''S'', PyInt 16], ''Holding the step number 8 set temperature.\<newline>''),
    ([PyStr ''S'', PyInt 17], ''Sweeping to step number 9 set temperature.\<newline>''),
    ([PyStr ''S'', PyInt 18], ''Holding the step number 9 set temperature.\<newline>''),
    ([PyStr ''S'', PyInt 19], ''Sweeping to step number 10 set temperature.\<newline>''),
    ([PyStr ''S'', PyInt 20], ''Holding the step number 10 set temperature.\<newline>''),
    ([PyStr ''S'', PyInt 21], ''Sweeping to step number 11 set temperature.\<newline>''),
    ([PyStr ''S'', PyInt 22], ''Holding the step number 11 set temperature.\<newline>''),
    ([PyStr ''S'', PyInt 23], ''Sweeping to step number 12 set temperature.\<newline>''),
    ([PyStr ''S'', PyInt 24], ''Holding the step number 12 set temperature.\<newline>''),
    ([PyStr ''S'', PyInt 25], ''Sweeping to step number 13 set temperature.\<newline>''),
    ([PyStr ''S'', PyInt 26], ''Holding the step number 13 set temperature.\<newline>''),
    ([PyStr ''S'', PyInt 27], ''Sweeping to step number 14 set temperature.\<newline>''),
    ([PyStr ''S'', PyInt 28], ''Holding the step number 14 set temperature.\<newline>''),
    ([PyStr ''S'', PyInt 29], ''Sweeping to step number 15 set temperature.\<newline>''),
    ([PyStr ''S'', PyInt 30], ''Holding the step number 15 set temperature.\<newline>''),
    ([PyStr ''S'', PyInt 31], ''Sweeping to step number 16 set temperature.\<newline>''),
    ([PyStr ''H'', PyStr ''1''], ''Temperature is controlled by CHANNEL 1 sensor.\<newline>''),
    ([PyStr ''H'', PyStr ''2''], ''Temperature is controlled by CHANNEL 2 sensor.\<newline>''),
    ([PyStr ''H'', PyStr ''3''], ''Temperature is controlled by CHANNEL 3 sensor.\<newline>''),
    ([PyStr ''L'', PyStr ''0''], ''Auto (learned) PIDs are DISABLED.''),
    ([PyStr ''L'', PyStr ''1''], ''Auto (learned) PIDs are ENABLED.'')]"
  by code_simp

lemmas ITC_decoder_defs =
  OxfordITC_status_decoder_def OxfordITC_status_split_def slice_def slice_from_def
  OxfordITC_field_key_def char_at_def getitem_def OxfordITC_messages_dictionary_eq

text \<open>
  C1 (the code at the failing input). The fields the claim names, \<open>X0\<close>, \<open>A1\<close>,
  \<open>C1\<close>, \<open>S05\<close>, \<open>H2\<close>, \<open>L0\<close>, make the status \<open>X0A1C1S05H2L0\<close> of thirteen
  characters, which is what the 2/2/2/3/2/2 schedule covers. The first three slices
  contribute their phrases; the sweep slice is looked up under \<open>('S', '05')\<close>, a pair
  of strings, while the table stores the phrase of sweep step 5 under the pair of
  \<open>'S'\<close> and the integer 5. The lookup raises \<open>KeyError\<close> and no message results.
  The phrase stored for step 5 is the one for sweeping to step number 3. The string as
  the claim spells it, with fourteen characters, fails at its second slice.
\<close>

theorem C1_ITC_example_not_decoded:
  "OxfordITC_status_decoder ''X0A1C1S05H2L0'' =
     (Some (KeyError [PyStr ''S'', PyStr ''05'']),
      ''Temperature controller NORMAL operative mode.\<newline>'' @
      ''Heater in AUTO mode. Gas flow in MANUAL mode.\<newline>'' @
      ''Temperature controller in REMOTE and LOCKED state.\<newline>'')
   \<and> map_of OxfordITC_messages_dictionary [PyStr ''S'', PyInt 5] =
       Some ''Sweeping to step number 3 set temperature.\<newline>''
   \<and> OxfordITC_status_decoder ''X00A1C1S05H2L0'' =
     (Some (KeyError [PyStr ''0'', PyStr ''A'']),
      ''Temperature controller NORMAL operative mode.\<newline>'')"
  by (simp add: ITC_decoder_defs)

subsection \<open>OxfordIPS: what the readings and the set-then-verify commands do\<close>

lemma instrument_query_pending:
  "pending (instrument s) = reply # rest \<Longrightarrow>
   instrument_query cmd s =
     (Inr reply, s\<lparr>instrument := \<lparr>written = written (instrument s) @ [cmd], pending = rest\<rparr>\<rparr>)"
  by (simp add: instrument_query_def resource_query_def)

lemma except_pass_caught: "caught e \<Longrightarrow> fst (except_pass caught r) \<noteq> Some e"
  by (auto simp: except_pass_def split: option.splits)

lemma py_float_example_2: "py_float ''+2.0000'' = Some 2"
  by (simp add: py_float_def unsigned_decimal_def is_digit_def digits_value_def digit_value_def)

lemma py_float_example_2_wide: "py_float ''+2.00000'' = Some 2"
  by (simp add: py_float_def unsigned_decimal_def is_digit_def digits_value_def digit_value_def)

lemma py_float_example_limit: "py_float ''+98.4600'' = Some 98.46"
  by (simp add: py_float_def unsigned_decimal_def is_digit_def digits_value_def digit_value_def)

lemma replicate_numeral_Cons: "replicate (numeral k) c = c # replicate (pred_numeral k) c"
  by (simp add: numeral_eq_Suc)

lemmas format_plus_f_defs =
  format_plus_f_def round_half_even_def zero_pad_def digits_of.simps replicate_numeral_Cons

lemma format_plus_f_example_1: "format_plus_f 4 1 = ''+1.0000''"
  by (simp add: format_plus_f_defs)

lemma format_plus_f_example_1_wide: "format_plus_f 5 1 = ''+1.00000''"
  by (simp add: format_plus_f_defs)

lemma format_plus_f_example_limit: "format_plus_f 4 98.46 = ''+98.4600''"
  by (simp add: format_plus_f_defs)

lemma example_IPS_fields [simp]:
  "identity (example_IPS replies) = ''IPS120-10  Version 3.07  (c) OXFORD 1996''"
  "buffer_radix (example_IPS replies) = ''@0''"
  "extended_resolution (example_IPS replies)"
  "instrument (example_IPS replies) = \<lparr>written = [], pending = replies\<rparr>"
  "current_set_point (example_IPS replies) = None"
  "field_set_point (example_IPS replies) = None"
  "current_sweep_rate (example_IPS replies) = None"
  by (simp_all add: example_IPS_def)

lemma example_IPS_is_IPS: "py_in ''IPS'' (identity (example_IPS replies))"
  by simp

text \<open>A reading that the instrument answers with a number stores that number.\<close>

lemma get_current_set_point_reading_echo:
  assumes "py_in ''IPS'' (identity s)" "pending (instrument s) = reply # rest"
    "\<not> py_in ''?'' (slice_from reply 1)" "py_float (slice_from reply 1) = Some v"
  shows "OxfordIPS_get_current_set_point_reading s =
     (None, s\<lparr>instrument := \<lparr>written = written (instrument s) @ [buffer_radix s @ ''R5''],
                               pending = rest\<rparr>,
              current_set_point := Some v\<rparr>)"
  using assms
  by (simp add: OxfordIPS_get_current_set_point_reading_def
      OxfordIPS_get_current_set_point_reading_try_def except_pass_def instrument_query_pending)

lemma get_field_set_point_reading_echo:
  assumes "py_in ''IPS'' (identity s)" "pending (instrument s) = reply # rest"
    "\<not> py_in ''?'' (slice_from reply 1)" "py_float (slice_from reply 1) = Some v"
  shows "OxfordIPS_get_field_set_point_reading s =
     (None, s\<lparr>instrument := \<lparr>written = written (instrument s) @ [buffer_radix s @ ''R8''],
                               pending = rest\<rparr>,
              field_set_point := Some v\<rparr>)"
  using assms
  by (simp add: OxfordIPS_get_field_set_point_reading_def
      OxfordIPS_get_field_set_point_reading_try_def except_pass_def instrument_query_pending)

lemma get_current_sweep_rate_reading_echo:
  assumes "py_in ''IPS'' (identity s)" "pending (instrument s) = reply # rest"
    "\<not> py_in ''?'' (slice_from reply 1)" "py_float (slice_from reply 1) = Some v"
  shows "OxfordIPS_get_current_sweep_rate_reading s =
     (None, s\<lparr>instrument := \<lparr>written = written (instrument s) @ [buffer_radix s @ ''R6''],
                               pending = rest\<rparr>,
              current_sweep_rate := Some v\<rparr>)"
  using assms
  by (simp add: OxfordIPS_get_current_sweep_rate_reading_def
      OxfordIPS_get_current_sweep_rate_reading_try_def except_pass_def instrument_query_pending)

text \<open>
  \<open>set_target_field\<close> does what the set-then-verify contract says: for a field in
  range that the instrument answers with the number \<open>v\<close>, the cached set point is
  \<open>v\<close>, and the call returns normally when \<open>v\<close> is the requested field and raises
  \<open>PSNotResponding\<close> otherwise.
\<close>

lemma set_target_field_verifies:
  assumes "py_in ''IPS'' (identity s)" "\<bar>field\<bar> \<le> 7"
    "pending (instrument s) = ack # reply # rest"
    "\<not> py_in ''?'' (slice_from reply 1)" "py_float (slice_from reply 1) = Some v"
  shows "OxfordIPS_set_target_field field s =
     (if v = field then None else Some PSNotResponding,
      s\<lparr>instrument := \<lparr>written = written (instrument s) @
             [buffer_radix s @ ''J'' @ format_plus_f (if extended_resolution s then 5 else 4) field,
              buffer_radix s @ ''R8''],
           pending = rest\<rparr>,
        field_set_point := Some v\<rparr>)"
  using assms
  by (simp add: OxfordIPS_set_target_field_def OxfordIPS_set_target_field_try_def
      except_pass_def instrument_query_pending get_field_set_point_reading_echo)

text \<open>
  \<open>set_target_current\<close> stores the re-read value in the same way, and returns
  normally whether or not it is the requested current.
\<close>

lemma set_target_current_never_reports:
  assumes "py_in ''IPS'' (identity s)" "\<bar>current\<bar> \<le> 98.46"
    "pending (instrument s) = ack # reply # rest"
    "\<not> py_in ''?'' (slice_from reply 1)" "py_float (slice_from reply 1) = Some v"
  shows "OxfordIPS_set_target_current current s =
     (None,
      s\<lparr>instrument := \<lparr>written = written (instrument s) @
             [buffer_radix s @ ''I'' @ format_plus_f (if extended_resolution s then 4 else 3) current,
              buffer_radix s @ ''R5''],
           pending = rest\<rparr>,
        current_set_point := Some v\<rparr>)"
  using assms
  by (simp add: OxfordIPS_set_target_current_def OxfordIPS_set_target_current_try_def
      except_pass_def instrument_query_pending get_current_set_point_reading_echo)

lemma set_target_current_out_of_range:
  "98.46 < \<bar>current\<bar> \<Longrightarrow> OxfordIPS_set_target_current current s = (None, s)"
  by (simp add: OxfordIPS_set_target_current_def OxfordIPS_set_target_current_try_def
      except_pass_def)

lemma set_target_field_out_of_range:
  "py_in ''IPS'' (identity s) \<Longrightarrow> 7 < \<bar>field\<bar> \<Longrightarrow>
   OxfordIPS_set_target_field field s = (Some (PSWrongOutputField field), s)"
  by (simp add: OxfordIPS_set_target_field_def OxfordIPS_set_target_field_try_def
      except_pass_def)

text \<open>
  C3 (the code at the failing input). The IPS of the test script is asked for a target
  current of 1 A; the instrument acknowledges the command and answers the re-read with
  2 A. \<open>set_target_current\<close> returns normally: the \<open>PSNotResponding\<close> it raises is
  caught by its own handler, which drops it. The cached set point is the echoed 2 A, as
  the claim says. \<open>set_target_field\<close>, whose handler does not list
  \<open>PSNotResponding\<close>, reports the failure in the same situation.
\<close>

theorem C3_set_target_current_mismatch_unreported:
  "OxfordIPS_set_target_current 1 (example_IPS [''I'', ''R+2.0000'']) =
     (None,
      (example_IPS [])\<lparr>instrument := \<lparr>written = [''@0I+1.0000'', ''@0R5''], pending = []\<rparr>,
                       current_set_point := Some 2\<rparr>)
   \<and> OxfordIPS_set_target_field 1 (example_IPS [''J'', ''R+2.00000'']) =
     (Some PSNotResponding,
      (example_IPS [])\<lparr>instrument := \<lparr>written = [''@0J+1.00000'', ''@0R8''], pending = []\<rparr>,
                       field_set_point := Some 2\<rparr>)"
proof -
  have "OxfordIPS_set_target_current 1 (example_IPS [''I'', ''R+2.0000'']) =
     (None,
      (example_IPS [''I'', ''R+2.0000''])
        \<lparr>instrument := \<lparr>written = [''@0I+1.0000'', ''@0R5''], pending = []\<rparr>,
         current_set_point := Some 2\<rparr>)"
    using set_target_current_never_reports
      [of "example_IPS [''I'', ''R+2.0000'']" 1 "''I''" "''R+2.0000''" "[]" 2]
    by (simp add: slice_from_def py_float_example_2 format_plus_f_example_1)
  moreover have "OxfordIPS_set_target_field 1 (example_IPS [''J'', ''R+2.00000'']) =
     (Some PSNotResponding,
      (example_IPS [''J'', ''R+2.00000''])
        \<lparr>instrument := \<lparr>written = [''@0J+1.00000'', ''@0R8''], pending = []\<rparr>,
         field_set_point := Some 2\<rparr>)"
    using set_target_field_verifies
      [of "example_IPS [''J'', ''R+2.00000'']" 1 "''J''" "''R+2.00000''" "[]" 2]
    by (simp add: slice_from_def py_float_example_2_wide format_plus_f_example_1_wide)
  ultimately show ?thesis
    by (simp add: example_IPS_def)
qed

text \<open>
  C4 (the code at the failing input). For a target current of 98.47 A the \<open>try\<close>
  block raises \<open>PSWrongOutputCurrent\<close> before anything is written, and the handler of
  \<open>set_target_current\<close> drops the exception: the call returns normally with the
  object unchanged, so no out-of-range failure reaches the caller. 98.46 A is accepted:
  the command \<open>I+98.4600\<close> is written and the set point is re-read.
\<close>

theorem C4_set_target_current_out_of_range_unreported:
  "OxfordIPS_set_target_current_try 98.47 (example_IPS [''I'', ''R+98.4600'']) =
     (Some (PSWrongOutputCurrent 98.47), example_IPS [''I'', ''R+98.4600''])
   \<and> OxfordIPS_set_target_current 98.47 (example_IPS [''I'', ''R+98.4600'']) =
     (None, example_IPS [''I'', ''R+98.4600''])
   \<and> OxfordIPS_set_target_current 98.46 (example_IPS [''I'', ''R+98.4600'']) =
     (None,
      (example_IPS [])\<lparr>instrument := \<lparr>written = [''@0I+98.4600'', ''@0R5''], pending = []\<rparr>,
                       current_set_point := Some 98.46\<rparr>)"
proof -
  have "OxfordIPS_set_target_current_try 98.47 (example_IPS [''I'', ''R+98.4600'']) =
     (Some (PSWrongOutputCurrent 98.47), example_IPS [''I'', ''R+98.4600''])"
    by (simp add: OxfordIPS_set_target_current_try_def)
  moreover have "OxfordIPS_set_target_current 98.47 (example_IPS [''I'', ''R+98.4600'']) =
     (None, example_IPS [''I'', ''R+98.4600''])"
    by (simp add: set_target_current_out_of_range)
  moreover have "OxfordIPS_set_target_current 98.46 (example_IPS [''I'', ''R+98.4600'']) =
     (None,
      (example_IPS [''I'', ''R+98.4600''])
        \<lparr>instrument := \<lparr>written = [''@0I+98.4600'', ''@0R5''], pending = []\<rparr>,
         current_set_point := Some 98.46\<rparr>)"
    using set_target_current_never_reports
      [of "example_IPS [''I'', ''R+98.4600'']" "98.46" "''I''" "''R+98.4600''" "[]" "98.46"]
    by (simp add: slice_from_def py_float_example_limit format_plus_f_defs)
  ultimately show ?thesis
    by (simp add: example_IPS_def)
qed

text \<open>
  C9. \<open>set_current_sweep_rate\<close> with a rate beyond 16.88 A/min returns normally and
  leaves the object, and with it the list of commands written, unchanged. With a rate
  in range, on an IPS that acknowledges the command and answers the re-read with a
  number other than the requested rate, it returns normally too, with that number as
  the cached sweep rate. No call of it ever ends in \<open>PSNotResponding\<close> or
  \<open>PSWrongCurrentSweepRate\<close>.
\<close>

theorem C9_set_current_sweep_rate_raises_nothing:
  "(16.88 < \<bar>rate\<bar> \<longrightarrow> OxfordIPS_set_current_sweep_rate rate s = (None, s))
   \<and> (py_in ''IPS'' (identity s) \<and> \<bar>rate\<bar> \<le> 16.88
        \<and> pending (instrument s) = ack # reply # rest
        \<and> \<not> py_in ''?'' (slice_from reply 1) \<and> py_float (slice_from reply 1) = Some v
        \<and> v \<noteq> rate \<longrightarrow>
      OxfordIPS_set_current_sweep_rate rate s =
        (None,
         s\<lparr>instrument := \<lparr>written = written (instrument s) @
                [buffer_radix s @ ''S'' @
                   format_plus_f (if extended_resolution s then 4 else 3) rate,
                 buffer_radix s @ ''R6''],
              pending = rest\<rparr>,
           current_sweep_rate := Some v\<rparr>))
   \<and> fst (OxfordIPS_set_current_sweep_rate rate s) \<noteq> Some PSNotResponding
   \<and> fst (OxfordIPS_set_current_sweep_rate rate s) \<noteq> Some (PSWrongCurrentSweepRate r)"
proof (intro conjI impI)
  assume "16.88 < \<bar>rate\<bar>"
  then show "OxfordIPS_set_current_sweep_rate rate s = (None, s)"
    by (simp add: OxfordIPS_set_current_sweep_rate_def OxfordIPS_set_current_sweep_rate_try_def
        except_pass_def)
next
  assume "py_in ''IPS'' (identity s) \<and> \<bar>rate\<bar> \<le> 16.88
        \<and> pending (instrument s) = ack # reply # rest
        \<and> \<not> py_in ''?'' (slice_from reply 1) \<and> py_float (slice_from reply 1) = Some v
        \<and> v \<noteq> rate"
  then show "OxfordIPS_set_current_sweep_rate rate s =
        (None,
         s\<lparr>instrument := \<lparr>written = written (instrument s) @
                [buffer_radix s @ ''S'' @
                   format_plus_f (if extended_resolution s then 4 else 3) rate,
                 buffer_radix s @ ''R6''],
              pending = rest\<rparr>,
           current_sweep_rate := Some v\<rparr>)"
    by (simp add: OxfordIPS_set_current_sweep_rate_def OxfordIPS_set_current_sweep_rate_try_def
        except_pass_def instrument_query_pending get_current_sweep_rate_reading_echo)
next
  show "fst (OxfordIPS_set_current_sweep_rate rate s) \<noteq> Some PSNotResponding"
    by (simp add: OxfordIPS_set_current_sweep_rate_def except_pass_caught)
next
  show "fst (OxfordIPS_set_current_sweep_rate rate s) \<noteq> Some (PSWrongCurrentSweepRate r)"
    by (simp add: OxfordIPS_set_current_sweep_rate_def except_pass_caught)
qed

theorem C9_set_current_sweep_rate_witness:
  "OxfordIPS_set_current_sweep_rate 16.89 (example_IPS [''S'', ''R+2.0000'']) =
     (None, example_IPS [''S'', ''R+2.0000''])
   \<and> OxfordIPS_set_current_sweep_rate 1 (example_IPS [''S'', ''R+2.0000'']) =
     (None,
      (example_IPS [])\<lparr>instrument := \<lparr>written = [''@0S+1.0000'', ''@0R6''], pending = []\<rparr>,
                       current_sweep_rate := Some 2\<rparr>)"
proof -
  have "OxfordIPS_set_current_sweep_rate 16.89 (example_IPS [''S'', ''R+2.0000'']) =
     (None, example_IPS [''S'', ''R+2.0000''])"
    using C9_set_current_sweep_rate_raises_nothing
      [of "16.89" "example_IPS [''S'', ''R+2.0000'']"]
    by simp
  moreover have "OxfordIPS_set_current_sweep_rate 1 (example_IPS [''S'', ''R+2.0000'']) =
     (None,
      (example_IPS [''S'', ''R+2.0000''])
        \<lparr>instrument := \<lparr>written = [''@0S+1.0000'', ''@0R6''], pending = []\<rparr>,
         current_sweep_rate := Some 2\<rparr>)"
    using C9_set_current_sweep_rate_raises_nothing
      [of 1 "example_IPS [''S'', ''R+2.0000'']" "''S''" "''R+2.0000''" "[]" 2]
    by (simp add: slice_from_def py_float_example_2 format_plus_f_example_1)
  ultimately show ?thesis
    by (simp add: example_IPS_def)
qed

text \<open>
  C10. \<open>get_safe_current_positive_limit_reading\<close> and
  \<open>get_safe_current_negative_limit_reading\<close> write the same commands, on an IPS the
  command \<open>R21\<close> after the ISOBUS prefix, and end in the same way; for a reply that is
  a number, the one stores as positive limit the number the other stores as negative
  limit.
\<close>

theorem C10_safe_current_limits_same_command:
  "written (instrument (snd (OxfordIPS_get_safe_current_positive_limit_reading s))) =
     written (instrument (snd (OxfordIPS_get_safe_current_negative_limit_reading s)))
   \<and> fst (OxfordIPS_get_safe_current_positive_limit_reading s) =
     fst (OxfordIPS_get_safe_current_negative_limit_reading s)
   \<and> (py_in ''IPS'' (identity s) \<longrightarrow>
        written (instrument (snd (OxfordIPS_get_safe_current_positive_limit_reading s))) =
          written (instrument s) @ [buffer_radix s @ ''R21''])
   \<and> (py_in ''IPS'' (identity s) \<and> pending (instrument s) = reply # rest
        \<and> \<not> py_in ''?'' (slice_from reply 1) \<and> py_float (slice_from reply 1) = Some v \<longrightarrow>
        safe_current_positive_limit (snd (OxfordIPS_get_safe_current_positive_limit_reading s)) =
          Some v
        \<and> safe_current_negative_limit (snd (OxfordIPS_get_safe_current_negative_limit_reading s)) =
          Some v)"
  by (cases "pending (instrument s)")
    (auto simp: OxfordIPS_get_safe_current_positive_limit_reading_def
      OxfordIPS_get_safe_current_positive_limit_reading_try_def
      OxfordIPS_get_safe_current_negative_limit_reading_def
      OxfordIPS_get_safe_current_negative_limit_reading_try_def
      except_pass_def instrument_query_def resource_query_def Let_def
      split: option.splits)

theorem C10_safe_current_limits_witness:
  "written (instrument (snd (OxfordIPS_get_safe_current_positive_limit_reading
       (example_IPS [''R+98.4600''])))) = [''@0R21'']
   \<and> written (instrument (snd (OxfordIPS_get_safe_current_negative_limit_reading
       (example_IPS [''R+98.4600''])))) = [''@0R21'']
   \<and> safe_current_positive_limit (snd (OxfordIPS_get_safe_current_positive_limit_reading
       (example_IPS [''R+98.4600'']))) = Some 98.46
   \<and> safe_current_negative_limit (snd (OxfordIPS_get_safe_current_negative_limit_reading
       (example_IPS [''R+98.4600'']))) = Some 98.46"
  using C10_safe_current_limits_same_command
      [of "example_IPS [''R+98.4600'']" "''R+98.4600''" "[]" "98.46"]
  by (auto simp add: slice_from_def py_float_example_limit)

subsection \<open>The status decoders on keys that the table lacks\<close>

text \<open>
  The loop over the slices: as long as every slice yields a key that the table holds,
  the phrases are appended in order.
\<close>

lemma decoder_loop_present:
  "map field_key before = map Inr present \<Longrightarrow>
   map (map_of messages) present = map Some phrases \<Longrightarrow>
   decoder_loop field_key messages (before @ rest) acc =
     decoder_loop field_key messages rest (acc @ concat phrases)"
proof (induction before arbitrary: present phrases acc)
  case Nil
  then show ?case by simp
next
  case (Cons f before)
  from Cons.prems(1) obtain k present' where
    present: "present = k # present'" and k: "field_key f = Inr k"
    and rest: "map field_key before = map Inr present'"
    by (cases present) auto
  from Cons.prems(2) present obtain p phrases' where
    phrases: "phrases = p # phrases'" and p: "map_of messages k = Some p"
    and rest': "map (map_of messages) present' = map Some phrases'"
    by (cases phrases) auto
  show ?case
    using Cons.IH [OF rest rest', of "acc @ p"] k p
    by (simp add: phrases getitem_def)
qed


lemma decoder_loop_all_present:
  assumes "map field_key slices = map Inr ks"
    and "map (map_of messages) ks = map Some phrases"
  shows "decoder_loop field_key messages slices acc = (None, acc @ concat phrases)"
  using decoder_loop_present [OF assms, of "[]" acc] by simp










text \<open>
  C2 (the code at the failing input). \<open>X0A0C0S05H1L0\<close> is a status of the ITC with
  every field in range: the controller is sweeping to its third set point. The decoder
  looks the sweep field up under \<open>('S', '05')\<close>, a pair of strings, but the table
  stores the sweep steps 1 to 31 under the pair of \<open>'S'\<close> and the integer; the lookup
  raises \<open>KeyError\<close> and no message results.
\<close>

theorem C2_ITC_sweep_step_not_decoded:
  "OxfordITC_status_decoder ''X0A0C0S05H1L0'' =
     (Some (KeyError [PyStr ''S'', PyStr ''05'']),
      ''Temperature controller NORMAL operative mode.\<newline>'' @
      ''Heater in MANUAL mode. Gas flow in MANUAL mode.\<newline>'' @
      ''Temperature controller in LOCAL and LOCKED state.\<newline>'')
   \<and> map_of OxfordITC_messages_dictionary [PyStr ''S'', PyStr ''05''] = None
   \<and> map_of OxfordITC_messages_dictionary [PyStr ''S'', PyInt 5] =
       Some ''Sweeping to step number 3 set temperature.\<newline>''"
  by (simp add: ITC_decoder_defs)




subsection \<open>Manager: opening an address that is not listed\<close>

text \<open>
  For an address that is neither in the enumeration held by the manager nor on the bus,
  \<open>open_instrument\<close> asks the VISA manager for one new enumeration. Unless both the old
  and the new enumeration are empty, in which case \<open>VoidManagerError\<close> leaves the
  method, the \<open>InstrumentNotAvailableError\<close> is printed and dropped, and the method
  returns \<open>None\<close>.
\<close>

lemma Manager_open_instrument_unreachable:
  assumes "adress \<notin> set (resources m)" "adress \<notin> set (bus (manager m))"
  shows "fst (Manager_open_instrument adress m) =
           (if bus (manager m) = [] \<and> resources m = [] then Inl VoidManagerError else Inr None)"
    and "list_resources_calls (manager (snd (Manager_open_instrument adress m))) =
           Suc (list_resources_calls (manager m))"
  using assms
  by (auto simp: Manager_open_instrument_def Manager_open_instrument_try_def
      Manager_is_resource_def Manager_refresh_resources_def Manager_refresh_resources_try_def
      list_resources_def error_handler_def Let_def)

text \<open>
  C8 (the code at the failing input). The manager holds the enumeration
  \<open>('GPIB0::23::INSTR',)\<close>, the bus now lists a second instrument, and the address
  \<open>'adress'\<close> is on neither. \<open>open_instrument\<close> refreshes the enumeration once, raises
  \<open>InstrumentNotAvailableError\<close>, and its own handler prints the error without
  re-raising it: the call returns \<open>None\<close> and no failure reaches the caller. With the
  bus unchanged, the error raised by the refresh is printed twice and dropped in the
  same way.
\<close>

theorem C8_open_instrument_returns_None:
  "Manager_open_instrument ''adress''
     \<lparr>console = [],
      manager = \<lparr>bus = [''GPIB0::23::INSTR'', ''GPIB0::27::INSTR''], list_resources_calls = 1\<rparr>,
      resources = [''GPIB0::23::INSTR'']\<rparr> =
     (Inr None,
      \<lparr>console = [InstrumentNotAvailableError],
       manager = \<lparr>bus = [''GPIB0::23::INSTR'', ''GPIB0::27::INSTR''], list_resources_calls = 2\<rparr>,
       resources = [''GPIB0::23::INSTR'', ''GPIB0::27::INSTR'']\<rparr>)
   \<and> Manager_open_instrument ''adress''
     \<lparr>console = [],
      manager = \<lparr>bus = [''GPIB0::23::INSTR''], list_resources_calls = 1\<rparr>,
      resources = [''GPIB0::23::INSTR'']\<rparr> =
     (Inr None,
      \<lparr>console = [InstrumentNotAvailableError, InstrumentNotAvailableError],
       manager = \<lparr>bus = [''GPIB0::23::INSTR''], list_resources_calls = 2\<rparr>,
       resources = [''GPIB0::23::INSTR'']\<rparr>)"
  by (simp add: Manager_open_instrument_def Manager_open_instrument_try_def
      Manager_is_resource_def Manager_refresh_resources_def Manager_refresh_resources_try_def
      list_resources_def error_handler_def Let_def)

subsection \<open>Keithley2400: the command buffer and the option tables\<close>

lemmas case_defs =
  py_title_def py_upper_def to_upper_def to_lower_def is_lower_def is_upper_def
  lower_case_def upper_case_def

lemma py_str_examples:
  "py_str (PyFloat 1 (- 2)) = ''0.01''"
  "py_str (PyFloat 5 (- 3)) = ''0.005''"
  "py_str (PyInteger 10) = ''10''"
  by (simp_all add: str_float_def str_int_def trailing_zeros_def digits_of.simps Let_def
      replicate_numeral_Cons)

lemma example_Keithley_is_2400:
  "py_in ''KEITHLEY'' (identity (example_Keithley replies))"
  "py_in ''2400'' (identity (example_Keithley replies))"
  by (simp_all add: example_Keithley_def)

text \<open>The methods that talk to the instrument only add to the commands written.\<close>

lemma instrument_query_written:
  "written (instrument (snd (instrument_query cmd s))) = written (instrument s) @ [cmd]"
  by (simp add: instrument_query_def resource_query_def split: list.splits)

lemma operation_complete_query_written:
  "written (instrument (snd (Instruments_operation_complete_query s))) =
     written (instrument s) @ [''*OPC?'']"
  using instrument_query_written [of "''*OPC?''" s]
  by (auto simp: Instruments_operation_complete_query_def split: prod.splits sum.splits)

lemma error_query_try_written:
  "\<exists>extra. written (instrument (snd (Keithley2400_error_query_try s))) =
     written (instrument s) @ extra"
proof (cases "py_in ''KEITHLEY'' (identity s) \<and> py_in ''2400'' (identity s)")
  case True
  have "written (instrument (snd (Keithley2400_error_query_try s))) =
      written (instrument (snd (instrument_query '':SYST:ERR?'' s)))"
    using True
    by (simp add: Keithley2400_error_query_try_def Let_def
        split: prod.splits sum.splits list.splits)
  then show ?thesis
    by (simp add: instrument_query_written)
next
  case False
  then show ?thesis
    by (auto simp: Keithley2400_error_query_try_def)
qed

lemma error_query_written:
  "\<exists>extra. written (instrument (snd (Keithley2400_error_query s))) =
     written (instrument s) @ extra"
  using error_query_try_written [of s]
  by (auto simp: Keithley2400_error_query_def except_print_raise_def error_handler_def
      split: option.splits)

lemma write_and_check_written:
  "\<exists>extra. written (instrument (snd (write_and_check buffer s))) =
     written (instrument s) @ buffer # extra"
proof (cases "Instruments_operation_complete_query (instrument_write buffer s)")
  case (Pair r s1)
  have s1: "written (instrument s1) = written (instrument s) @ [buffer, ''*OPC?'']"
    using operation_complete_query_written [of "instrument_write buffer s"] Pair
    by (simp add: instrument_write_def resource_write_def)
  show ?thesis
  proof (cases r)
    case None
    obtain extra where
      "written (instrument (snd (Keithley2400_error_query s1))) = written (instrument s1) @ extra"
      using error_query_written [of s1] by blast
    then show ?thesis
      using Pair None s1 by (simp add: write_and_check_def)
  next
    case (Some e)
    then show ?thesis
      using Pair s1 by (simp add: write_and_check_def)
  qed
qed

lemma except_print_written:
  "written (instrument (snd (except_print caught r))) = written (instrument (snd r))"
  by (simp add: except_print_def error_handler_def split: option.splits)

lemma current_source_fixed_buffer_example:
  "Keithley2400_current_source_fixed_buffer False ''Always'' True (PyInteger 0) False
     (PyFloat 1 (- 2)) (PyFloat 5 (- 3)) ''Immediate'' False (PyInteger 1) (PyInteger 10) =
   Inr '':SOUR:CLE:AUTO OFF;:SOUR:DEL:AUTO ON;:SOUR:FUNC CURR;:SOUR:CURR:MODE FIX;:SOUR:CURR:RANG:AUTO OFF;:SOUR:CURR:RANG 0.01:SOUR:CURR 0.005;:SENS:VOLT:PROT 10;''"
  by (simp add: Keithley2400_current_source_fixed_buffer_def
      Keithley2400_source_general_configuration_def
      Keithley2400_source_general_configuration_try_def return_none_on_key_error_class_def
      and_then_def py_str_examples case_defs Let_def del: py_str.simps)

text \<open>
  C5. With \<open>auto_range=False\<close>, \<open>manual_range=1e-2\<close>, \<open>source_level=5e-3\<close>,
  \<open>compliance_value=10\<close> and the other parameters at their defaults,
  \<open>current_source_fixed_configuration\<close> builds the buffer given below, which holds
  the four fragments of the claim one after the other, and on a Keithley 2400 that
  buffer is the first command the call writes to the instrument.
\<close>

theorem C5_current_source_fixed_buffer:
  "Keithley2400_current_source_fixed_buffer False ''Always'' True (PyInteger 0) False
     (PyFloat 1 (- 2)) (PyFloat 5 (- 3)) ''Immediate'' False (PyInteger 1) (PyInteger 10) =
     Inr '':SOUR:CLE:AUTO OFF;:SOUR:DEL:AUTO ON;:SOUR:FUNC CURR;:SOUR:CURR:MODE FIX;:SOUR:CURR:RANG:AUTO OFF;:SOUR:CURR:RANG 0.01:SOUR:CURR 0.005;:SENS:VOLT:PROT 10;''
   \<and> occurs_in_order
       ['':SOUR:FUNC CURR;'', '':SOUR:CURR:RANG:AUTO OFF;:SOUR:CURR:RANG 0.01'',
        '':SOUR:CURR 0.005;'', '':SENS:VOLT:PROT 10;'']
       '':SOUR:CLE:AUTO OFF;:SOUR:DEL:AUTO ON;:SOUR:FUNC CURR;:SOUR:CURR:MODE FIX;:SOUR:CURR:RANG:AUTO OFF;:SOUR:CURR:RANG 0.01:SOUR:CURR 0.005;:SENS:VOLT:PROT 10;''
   \<and> (py_in ''KEITHLEY'' (identity s) \<and> py_in ''2400'' (identity s) \<longrightarrow>
        take (Suc (length (written (instrument s))))
          (written (instrument (snd
             (Keithley2400_current_source_fixed_configuration False ''Always'' True (PyInteger 0)
                False (PyFloat 1 (- 2)) (PyFloat 5 (- 3)) ''Immediate'' False (PyInteger 1)
                (PyInteger 10) s)))) =
        written (instrument s) @
          ['':SOUR:CLE:AUTO OFF;:SOUR:DEL:AUTO ON;:SOUR:FUNC CURR;:SOUR:CURR:MODE FIX;:SOUR:CURR:RANG:AUTO OFF;:SOUR:CURR:RANG 0.01:SOUR:CURR 0.005;:SENS:VOLT:PROT 10;''])"
proof (intro conjI impI)
  show "Keithley2400_current_source_fixed_buffer False ''Always'' True (PyInteger 0) False
     (PyFloat 1 (- 2)) (PyFloat 5 (- 3)) ''Immediate'' False (PyInteger 1) (PyInteger 10) =
     Inr '':SOUR:CLE:AUTO OFF;:SOUR:DEL:AUTO ON;:SOUR:FUNC CURR;:SOUR:CURR:MODE FIX;:SOUR:CURR:RANG:AUTO OFF;:SOUR:CURR:RANG 0.01:SOUR:CURR 0.005;:SENS:VOLT:PROT 10;''"
    by (rule current_source_fixed_buffer_example)
next
  show "occurs_in_order
       ['':SOUR:FUNC CURR;'', '':SOUR:CURR:RANG:AUTO OFF;:SOUR:CURR:RANG 0.01'',
        '':SOUR:CURR 0.005;'', '':SENS:VOLT:PROT 10;'']
       '':SOUR:CLE:AUTO OFF;:SOUR:DEL:AUTO ON;:SOUR:FUNC CURR;:SOUR:CURR:MODE FIX;:SOUR:CURR:RANG:AUTO OFF;:SOUR:CURR:RANG 0.01:SOUR:CURR 0.005;:SENS:VOLT:PROT 10;''"
    by simp
next
  assume id: "py_in ''KEITHLEY'' (identity s) \<and> py_in ''2400'' (identity s)"
  obtain extra where
    "written (instrument (snd (write_and_check
        '':SOUR:CLE:AUTO OFF;:SOUR:DEL:AUTO ON;:SOUR:FUNC CURR;:SOUR:CURR:MODE FIX;:SOUR:CURR:RANG:AUTO OFF;:SOUR:CURR:RANG 0.01:SOUR:CURR 0.005;:SENS:VOLT:PROT 10;'' s))) =
     written (instrument s) @
       '':SOUR:CLE:AUTO OFF;:SOUR:DEL:AUTO ON;:SOUR:FUNC CURR;:SOUR:CURR:MODE FIX;:SOUR:CURR:RANG:AUTO OFF;:SOUR:CURR:RANG 0.01:SOUR:CURR 0.005;:SENS:VOLT:PROT 10;'' # extra"
    using write_and_check_written by blast
  then show "take (Suc (length (written (instrument s))))
          (written (instrument (snd
             (Keithley2400_current_source_fixed_configuration False ''Always'' True (PyInteger 0)
                False (PyFloat 1 (- 2)) (PyFloat 5 (- 3)) ''Immediate'' False (PyInteger 1)
                (PyInteger 10) s)))) =
        written (instrument s) @
          ['':SOUR:CLE:AUTO OFF;:SOUR:DEL:AUTO ON;:SOUR:FUNC CURR;:SOUR:CURR:MODE FIX;:SOUR:CURR:RANG:AUTO OFF;:SOUR:CURR:RANG 0.01:SOUR:CURR 0.005;:SENS:VOLT:PROT 10;'']"
    using id
    by (simp add: Keithley2400_current_source_fixed_configuration_def
        Keithley2400_current_source_fixed_configuration_try_def except_print_written
        current_source_fixed_buffer_example)
qed

theorem C5_current_source_fixed_witness:
  "py_in ''KEITHLEY'' (identity (example_Keithley [''1'', ''0,No error'']))
   \<and> py_in ''2400'' (identity (example_Keithley [''1'', ''0,No error'']))
   \<and> take (Suc 0)
       (written (instrument (snd
          (Keithley2400_current_source_fixed_configuration False ''Always'' True (PyInteger 0)
             False (PyFloat 1 (- 2)) (PyFloat 5 (- 3)) ''Immediate'' False (PyInteger 1)
             (PyInteger 10) (example_Keithley [''1'', ''0,No error'']))))) =
     ['':SOUR:CLE:AUTO OFF;:SOUR:DEL:AUTO ON;:SOUR:FUNC CURR;:SOUR:CURR:MODE FIX;:SOUR:CURR:RANG:AUTO OFF;:SOUR:CURR:RANG 0.01:SOUR:CURR 0.005;:SENS:VOLT:PROT 10;'']"
  using C5_current_source_fixed_buffer [of "example_Keithley [''1'', ''0,No error'']"]
    example_Keithley_is_2400 [of "[''1'', ''0,No error'']"]
  by (simp add: example_Keithley_def)













end
